theory Spec2Isabelle
  imports Main "HOL-Library.Word" "HOL-Library.Multiset"
begin

section \<open>Python values used by \<open>sdc/rabbit/consumers.py\<close>\<close>

text \<open>
  The exception classes that the consumer raises, catches or lets through.
  \<open>TypeError\<close>, \<open>KeyError\<close>, \<open>ZeroDivisionError\<close>, \<open>IndexError\<close>, \<open>AttributeError\<close>,
  \<open>ValueError\<close> and \<open>UnicodeDecodeError\<close> are Python built-ins; \<open>AMQPConnectionError\<close> and
  \<open>ChannelWrongStateError\<close> are classes of \<open>pika.exceptions\<close> (the second is what a
  channel that is not open raises). \<open>OtherException\<close> stands for any further class
  deriving from \<open>Exception\<close>, and \<open>NonExceptionBase\<close> for the classes that derive from
  \<open>BaseException\<close> only (\<open>KeyboardInterrupt\<close>, \<open>SystemExit\<close>, \<open>GeneratorExit\<close>), which an
  \<open>except Exception\<close> clause does not catch.

  Modelled from the spec: the module \<open>sdc.rabbit.exceptions\<close> (imported in lines 8-9 of
  \<open>consumers.py\<close>) is not among the sources. Following the error taxonomy of the
  specification, \<open>QuarantinableError\<close>, \<open>BadMessageError\<close>, \<open>RetryableError\<close> and
  \<open>PublishMessageError\<close> are four distinct classes deriving from \<open>Exception\<close>, none a
  subclass of another or of \<open>TypeError\<close>.
\<close>

datatype exn =
    TypeError
  | KeyError
  | ZeroDivisionError
  | IndexError
  | AttributeError
  | ValueError
  | UnicodeDecodeError
  | AMQPConnectionError
  | ChannelWrongStateError
  | QuarantinableError
  | BadMessageError
  | RetryableError
  | PublishMessageError
  | OtherException
  | NonExceptionBase

text \<open>\<open>isinstance(e, Exception)\<close>: what an \<open>except Exception\<close> clause catches.\<close>

fun isinstance_Exception :: "exn \<Rightarrow> bool" where
  "isinstance_Exception NonExceptionBase = False"
| "isinstance_Exception e = True"

text \<open>The outcome of calling a collaborator: it returns, or it raises.\<close>

datatype call_result = Returns | Raises exn

type_synonym bytes = "8 word list"

text \<open>A dictionary literal or header table, as an association list.\<close>

type_synonym 'v dict = "(string \<times> 'v) list"

text \<open>
  The value passed as \<open>process\<close>: a callable that accepts the decoded body and the
  \<open>tx_id\<close> (\<open>None\<close> being Python's \<open>None\<close>) and whose body then runs to an outcome; a
  callable whose signature does not accept these two arguments; or an object that is not
  callable.
\<close>

datatype py_callable =
    Callable "string \<Rightarrow> string option \<Rightarrow> call_result"
  | CallableWrongArity
  | NotCallable

text \<open>
  \<open>quarantine_publisher.publish_message(body, headers={'tx_id': tx_id})\<close>. The publisher
  is an external collaborator, taken as a parameter: any function from the payload and
  the headers to an outcome.
\<close>

type_synonym publisher = "bytes \<Rightarrow> string option dict \<Rightarrow> call_result"

section \<open>Broker messages and observable effects\<close>

record basic_deliver =
  delivery_tag :: nat

text \<open>\<open>pika.BasicProperties\<close>: \<open>headers\<close> is a table or \<open>None\<close>.\<close>

record basic_properties =
  headers :: "string dict option"
  app_id :: "string option"

text \<open>
  The calls a consumer makes on its collaborators, in the order it makes them: the three
  acknowledgment RPCs on the channel (\<open>basic_ack\<close>, \<open>basic_nack\<close>,
  \<open>basic_reject(tag, requeue)\<close>), the call of the processing callback, the call of the
  quarantine publisher, a connection attempt to a URL (with the value of \<open>_count\<close> it
  logs), \<open>time.sleep\<close>, \<open>connection.channel(...)\<close>, \<open>ioloop.call_later\<close>, \<open>ioloop.start\<close>
  and \<open>ioloop.stop\<close>. An acknowledgment RPC is recorded when the method of the channel
  is called, whether it then returns or raises; \<open>ProcessCall\<close> is recorded when the body
  of the callback starts to run.
\<close>

datatype event =
    BasicAck nat
  | BasicNack nat
  | BasicReject nat bool
  | ProcessCall string "string option"
  | PublishMessage bytes "string option dict"
  | Connecting string int
  | Sleep int
  | ChannelOpen nat
  | CallLater int
  | IOLoopStart
  | IOLoopStop

text \<open>
  Calling the value stored as \<open>process\<close>. The body of a callable with the right
  signature runs; a callable with another signature, and an object that is not callable,
  raise \<open>TypeError\<close> at the call, and no body runs.
\<close>

fun call_process :: "py_callable \<Rightarrow> string \<Rightarrow> string option \<Rightarrow> event list \<times> call_result" where
  "call_process (Callable f) text tx = ([ProcessCall text tx], f text tx)"
| "call_process CallableWrongArity text tx = ([], Raises TypeError)"
| "call_process NotCallable text tx = ([], Raises TypeError)"

text \<open>
  A channel object (\<open>pika.channel.Channel\<close>), as far as the consumer uses it to
  acknowledge: the outcome of each RPC method called on it. The channel belongs to the
  protocol library and is taken as a parameter: an open channel returns, a channel that
  is not open raises.
\<close>

type_synonym channel = "event \<Rightarrow> call_result"

section \<open>The consumer objects\<close>

text \<open>
  The attributes set by \<open>AsyncConsumer.__init__\<close>; \<open>self_x\<close> is the attribute
  \<open>self._x\<close>. Connections and consumer tags are opaque handles.
\<close>

record async_consumer =
  self_exchange :: string
  self_exchange_type :: string
  self_durable_queue :: bool
  self_queue :: string
  self_rabbit_urls :: "string list"
  self_connection :: "nat option"
  self_channel :: "channel option"
  self_closing :: bool
  self_consumer_tag :: "string option"
  self_url :: "string option"
  self_count :: int

text \<open>\<open>MessageConsumer\<close> (through \<open>TornadoConsumer\<close>) extends \<open>AsyncConsumer\<close>.\<close>

record message_consumer = async_consumer +
  process :: py_callable
  quarantine_publisher :: publisher
  check_tx_id :: bool

definition AsyncConsumer_init ::
  "bool \<Rightarrow> string \<Rightarrow> string \<Rightarrow> string \<Rightarrow> string list \<Rightarrow> async_consumer" where
  "AsyncConsumer_init durable exch exch_type rabbit_queue rabbit_urls =
     \<lparr> self_exchange = exch,
       self_exchange_type = exch_type,
       self_durable_queue = durable,
       self_queue = rabbit_queue,
       self_rabbit_urls = rabbit_urls,
       self_connection = None,
       self_channel = None,
       self_closing = False,
       self_consumer_tag = None,
       self_url = None,
       self_count = 1 \<rparr>"

text \<open>
  \<open>MessageConsumer.__init__\<close>: the only check is \<open>callable(process)\<close>, raising
  \<open>AttributeError\<close>; then the attributes are set and \<open>super().__init__\<close> runs.
\<close>

definition MessageConsumer_init ::
  "bool \<Rightarrow> string \<Rightarrow> string \<Rightarrow> string \<Rightarrow> string list \<Rightarrow> publisher \<Rightarrow> py_callable \<Rightarrow> bool
     \<Rightarrow> exn + message_consumer" where
  "MessageConsumer_init durable exch exch_type rabbit_queue rabbit_urls qp proc check =
     (case proc of
        NotCallable \<Rightarrow> Inl AttributeError
      | _ \<Rightarrow>
          Inr (async_consumer.extend
                 (AsyncConsumer_init durable exch exch_type rabbit_queue rabbit_urls)
                 \<lparr> process = proc, quarantine_publisher = qp, check_tx_id = check \<rparr>))"

section \<open>Acknowledging, and \<open>MessageConsumer.on_message\<close>\<close>

text \<open>
  A method call on \<open>self._channel\<close>. While the attribute is \<open>None\<close> (as \<open>__init__\<close> and
  \<open>on_connection_closed\<close> leave it) the attribute access raises \<open>AttributeError\<close> and
  nothing is sent. Otherwise the call is made, and returns or raises as the channel
  decides. The result is the events and the exception raised, if any.
\<close>

definition channel_rpc :: "'s async_consumer_scheme \<Rightarrow> event \<Rightarrow> event list \<times> exn option" where
  "channel_rpc self rpc =
     (case self_channel self of
        None \<Rightarrow> ([], Some AttributeError)
      | Some ch \<Rightarrow> ([rpc], (case ch rpc of Returns \<Rightarrow> None | Raises e \<Rightarrow> Some e)))"

text \<open>
  \<open>acknowledge_message\<close>, \<open>nack_message\<close> and \<open>reject_message\<close> (lines 283-309) log and
  call \<open>basic_ack\<close>, \<open>basic_nack\<close> and \<open>basic_reject(tag, requeue=requeue)\<close> on
  \<open>self._channel\<close>.
\<close>

definition acknowledge_message ::
  "'s async_consumer_scheme \<Rightarrow> nat \<Rightarrow> event list \<times> exn option" where
  "acknowledge_message self tag = channel_rpc self (BasicAck tag)"

definition nack_message ::
  "'s async_consumer_scheme \<Rightarrow> nat \<Rightarrow> event list \<times> exn option" where
  "nack_message self tag = channel_rpc self (BasicNack tag)"

definition reject_message ::
  "'s async_consumer_scheme \<Rightarrow> nat \<Rightarrow> bool \<Rightarrow> event list \<times> exn option" where
  "reject_message self tag requeue = channel_rpc self (BasicReject tag requeue)"

text \<open>
  \<open>MessageConsumer.tx_id\<close>: \<open>properties.headers['tx_id']\<close>. Subscripting \<open>None\<close> raises
  \<open>TypeError\<close>, a missing key raises \<open>KeyError\<close>.
\<close>

definition tx_id :: "basic_properties \<Rightarrow> exn + string" where
  "tx_id properties =
     (case headers properties of
        None \<Rightarrow> Inl TypeError
      | Some h \<Rightarrow> (case map_of h ''tx_id'' of None \<Rightarrow> Inl KeyError | Some v \<Rightarrow> Inr v))"

text \<open>
  Lines 563-567, the inner \<open>try\<close>: \<open>body.decode("utf-8")\<close>, then the call of the
  callback; a \<open>TypeError\<close> out of either is replaced by \<open>QuarantinableError\<close>. The decoder
  is a parameter (\<open>None\<close> is \<open>UnicodeDecodeError\<close>). The result is the events so far and
  the exception leaving the inner \<open>try\<close>, if any.
\<close>

definition process_body ::
  "(bytes \<Rightarrow> string option) \<Rightarrow> 's message_consumer_scheme \<Rightarrow> bytes \<Rightarrow> string option
     \<Rightarrow> event list \<times> exn option" where
  "process_body decode self body tx =
     (case decode body of
        None \<Rightarrow> ([], Some UnicodeDecodeError)
      | Some text \<Rightarrow>
          (case call_process (process self) text tx of
             (ev, Returns) \<Rightarrow> (ev, None)
           | (ev, Raises e) \<Rightarrow> (ev, Some (if e = TypeError then QuarantinableError else e))))"

text \<open>
  Lines 563-570, the body of the outer \<open>try\<close>: the inner \<open>try\<close>, then
  \<open>acknowledge_message\<close>. An exception of the acknowledgment leaves the body like one of
  the callback, and meets the same handlers.
\<close>

definition try_body ::
  "(bytes \<Rightarrow> string option) \<Rightarrow> 's message_consumer_scheme \<Rightarrow> nat \<Rightarrow> bytes \<Rightarrow> string option
     \<Rightarrow> event list \<times> exn option" where
  "try_body decode self tag body tx =
     (case process_body decode self body tx of
        (ev, Some e) \<Rightarrow> (ev, Some e)
      | (ev, None) \<Rightarrow>
          (case acknowledge_message self tag of (ev', r) \<Rightarrow> (ev @ ev', r)))"

text \<open>
  Lines 574-577, the \<open>try\<close> inside the handler of
  \<open>(QuarantinableError, BadMessageError)\<close>: publish, then reject without requeue.
\<close>

definition quarantine_try ::
  "'s message_consumer_scheme \<Rightarrow> nat \<Rightarrow> bytes \<Rightarrow> string option \<Rightarrow> event list \<times> exn option" where
  "quarantine_try self tag body tx =
     (case quarantine_publisher self body [(''tx_id'', tx)] of
        Returns \<Rightarrow>
          (case reject_message self tag False of
             (ev, r) \<Rightarrow> ([PublishMessage body [(''tx_id'', tx)]] @ ev, r))
      | Raises e \<Rightarrow> ([PublishMessage body [(''tx_id'', tx)]], Some e))"

text \<open>
  Lines 572-580, the whole handler: \<open>PublishMessageError\<close> out of its \<open>try\<close> rejects with
  requeue. Any other exception leaves the handler and \<open>on_message\<close>: the later \<open>except\<close>
  clauses of the outer \<open>try\<close> do not apply to an exception raised in a handler.
\<close>

definition quarantine ::
  "'s message_consumer_scheme \<Rightarrow> nat \<Rightarrow> bytes \<Rightarrow> string option \<Rightarrow> event list \<times> exn option" where
  "quarantine self tag body tx =
     (case quarantine_try self tag body tx of
        (ev, None) \<Rightarrow> (ev, None)
      | (ev, Some e) \<Rightarrow>
          if e = PublishMessageError
          then (case reject_message self tag True of (ev', r) \<Rightarrow> (ev @ ev', r))
          else (ev, Some e))"

text \<open>Lines 562-589, the outer \<open>try\<close> statement with its three handlers.\<close>

definition dispatch ::
  "(bytes \<Rightarrow> string option) \<Rightarrow> 's message_consumer_scheme \<Rightarrow> nat \<Rightarrow> bytes \<Rightarrow> string option
     \<Rightarrow> event list \<times> exn option" where
  "dispatch decode self tag body tx =
     (case try_body decode self tag body tx of
        (ev, None) \<Rightarrow> (ev, None)
      | (ev, Some e) \<Rightarrow>
          if e = QuarantinableError \<or> e = BadMessageError then
            (case quarantine self tag body tx of (ev', r) \<Rightarrow> (ev @ ev', r))
          else if e = RetryableError then
            (case nack_message self tag of (ev', r) \<Rightarrow> (ev @ ev', r))
          else if isinstance_Exception e then
            (case nack_message self tag of (ev', r) \<Rightarrow> (ev @ ev', r))
          else (ev, Some e))"

text \<open>
  \<open>MessageConsumer.on_message(self, unused_channel, basic_deliver, properties, body)\<close>.
  The result is the list of events and the exception that leaves \<open>on_message\<close>
  (\<open>None\<close> when it returns). In the two handlers of lines 549-556 the rejection is
  followed by a log entry and \<open>return None\<close>; an exception of the rejection leaves
  \<open>on_message\<close>.
\<close>

definition on_message ::
  "(bytes \<Rightarrow> string option) \<Rightarrow> 's message_consumer_scheme \<Rightarrow> basic_deliver \<Rightarrow> basic_properties
     \<Rightarrow> bytes \<Rightarrow> event list \<times> exn option" where
  "on_message decode self deliver properties body =
     (if check_tx_id self then
        (case tx_id properties of
           Inr t \<Rightarrow> dispatch decode self (delivery_tag deliver) body (Some t)
         | Inl e \<Rightarrow>
             if e = KeyError then reject_message self (delivery_tag deliver) False
             else if e = TypeError then reject_message self (delivery_tag deliver) False
             else ([], Some e))
      else dispatch decode self (delivery_tag deliver) body None)"

text \<open>The acknowledgment RPCs among the events.\<close>

fun is_broker_action :: "event \<Rightarrow> bool" where
  "is_broker_action (BasicAck t) = True"
| "is_broker_action (BasicNack t) = True"
| "is_broker_action (BasicReject t r) = True"
| "is_broker_action e = False"

definition broker_actions :: "event list \<Rightarrow> event list" where
  "broker_actions ev = filter is_broker_action ev"

section \<open>Connecting: \<open>AsyncConsumer.connect\<close> and \<open>TornadoConsumer.connect\<close>\<close>

text \<open>
  The result of a connection constructor (\<open>pika.SelectConnection(...)\<close> in
  \<open>AsyncConsumer\<close>, \<open>TornadoConnection(...)\<close> in \<open>TornadoConsumer\<close>, the two \<open>connect\<close>
  methods being otherwise the same): a connection handle, or an exception.
  \<open>AMQPConnectionError\<close> stands for that class and its subclasses.
\<close>

datatype open_result = Opened nat | OpenRaises exn

text \<open>
  How a method that may block ends: it returns a value, it raises, or it is still
  running when the outcomes supplied by the environment are used up.
\<close>

datatype 'a status = Returned 'a | Raised exn | Pending

text \<open>
  Line 73 (and 411): \<open>server_choice = (self._count % no_of_servers) - 1\<close>. Python's \<open>%\<close>
  raises \<open>ZeroDivisionError\<close> on a zero divisor and, like \<open>mod\<close> on \<open>int\<close>, takes the
  sign of the divisor.
\<close>

definition server_choice :: "int \<Rightarrow> int \<Rightarrow> exn + int" where
  "server_choice cnt no_of_servers =
     (if no_of_servers = 0 then Inl ZeroDivisionError
      else Inr (cnt mod no_of_servers - 1))"

text \<open>
  Python's list subscript: an index from \<open>-len\<close> to \<open>-1\<close> counts from the end, an index
  outside \<open>-len .. len - 1\<close> raises \<open>IndexError\<close>.
\<close>

definition py_index :: "'a list \<Rightarrow> int \<Rightarrow> exn + 'a" where
  "py_index xs i =
     (if 0 \<le> i \<and> i < int (length xs) then Inr (xs ! nat i)
      else if - int (length xs) \<le> i \<and> i < 0 then Inr (xs ! nat (i + int (length xs)))
      else Inl IndexError)"

text \<open>Lines 73 and 75 together: the URL chosen for the attempt.\<close>

definition select_url :: "'s async_consumer_scheme \<Rightarrow> int \<Rightarrow> exn + string" where
  "select_url self no_of_servers =
     (case server_choice (self_count self) no_of_servers of
        Inl e \<Rightarrow> Inl e
      | Inr i \<Rightarrow> py_index (self_rabbit_urls self) i)"

text \<open>
  \<open>_delay_before_reconnect\<close>: \<open>time.sleep(self._count)\<close>, then \<open>self._count += 1\<close>.
  \<open>time.sleep\<close> raises \<open>ValueError\<close> on a negative length.
\<close>

definition delay_before_reconnect ::
  "'s async_consumer_scheme \<Rightarrow> 's async_consumer_scheme \<times> event list \<times> unit status" where
  "delay_before_reconnect self =
     (if self_count self < 0 then (self, [], Raised ValueError)
      else (self\<lparr>self_count := self_count self + 1\<rparr>, [Sleep (self_count self)], Returned ()))"

text \<open>
  The \<open>while True\<close> loop of \<open>connect\<close>. The first argument lists the outcomes of the
  successive connection constructors, as the environment decides them; when the loop
  needs an outcome that the list does not give, the run is \<open>Pending\<close>: the attempt has
  been made and its outcome is open. Only \<open>AMQPConnectionError\<close> is caught; the loop then
  sleeps and goes round again. The result is the consumer, the events and the status;
  \<open>Returned c\<close> is \<open>return c\<close>.
\<close>

fun connect_loop ::
  "open_result list \<Rightarrow> int \<Rightarrow> 's async_consumer_scheme
     \<Rightarrow> 's async_consumer_scheme \<times> event list \<times> nat status" where
  "connect_loop [] no_of_servers self =
     (case select_url self no_of_servers of
        Inl e \<Rightarrow> (self, [], Raised e)
      | Inr u \<Rightarrow> (self\<lparr>self_url := Some u\<rparr>, [Connecting u (self_count self)], Pending))"
| "connect_loop (r # script) no_of_servers self =
     (case select_url self no_of_servers of
        Inl e \<Rightarrow> (self, [], Raised e)
      | Inr u \<Rightarrow>
          (case r of
             Opened c \<Rightarrow> (self\<lparr>self_url := Some u\<rparr>, [Connecting u (self_count self)], Returned c)
           | OpenRaises e \<Rightarrow>
               if e = AMQPConnectionError then
                 (case delay_before_reconnect (self\<lparr>self_url := Some u\<rparr>) of
                    (self2, ev2, Returned x) \<Rightarrow>
                      (case connect_loop script no_of_servers self2 of
                         (self3, ev3, st) \<Rightarrow>
                           (self3, [Connecting u (self_count self)] @ ev2 @ ev3, st))
                  | (self2, ev2, Raised e2) \<Rightarrow>
                      (self2, [Connecting u (self_count self)] @ ev2, Raised e2)
                  | (self2, ev2, Pending) \<Rightarrow>
                      (self2, [Connecting u (self_count self)] @ ev2, Pending))
               else (self\<lparr>self_url := Some u\<rparr>, [Connecting u (self_count self)], Raised e)))"

definition connect ::
  "open_result list \<Rightarrow> 's async_consumer_scheme
     \<Rightarrow> 's async_consumer_scheme \<times> event list \<times> nat status" where
  "connect script self = connect_loop script (int (length (self_rabbit_urls self))) self"

text \<open>
  \<open>open_channel\<close>: \<open>self._connection.channel(...)\<close>; on \<open>None\<close> the attribute access
  raises \<open>AttributeError\<close>.
\<close>

definition open_channel ::
  "'s async_consumer_scheme \<Rightarrow> 's async_consumer_scheme \<times> event list \<times> unit status" where
  "open_channel self =
     (case self_connection self of
        None \<Rightarrow> (self, [], Raised AttributeError)
      | Some c \<Rightarrow> (self, [ChannelOpen c], Returned ()))"

text \<open>\<open>on_connection_open\<close>: \<open>self._count = 1\<close>, then \<open>self.open_channel()\<close>.\<close>

definition on_connection_open ::
  "'s async_consumer_scheme \<Rightarrow> 's async_consumer_scheme \<times> event list \<times> unit status" where
  "on_connection_open self = open_channel (self\<lparr>self_count := 1\<rparr>)"

text \<open>
  \<open>reconnect\<close>: delay first, then, unless closing, \<open>self._connection = self.connect()\<close>.
  \<open>on_connection_open_error\<close> logs and calls it.
\<close>

definition reconnect ::
  "open_result list \<Rightarrow> 's async_consumer_scheme
     \<Rightarrow> 's async_consumer_scheme \<times> event list \<times> unit status" where
  "reconnect script self =
     (case delay_before_reconnect self of
        (self1, ev1, Returned x) \<Rightarrow>
          if \<not> self_closing self1 then
            (case connect script self1 of
               (self2, ev2, Returned c) \<Rightarrow>
                 (self2\<lparr>self_connection := Some c\<rparr>, ev1 @ ev2, Returned ())
             | (self2, ev2, Raised e) \<Rightarrow> (self2, ev1 @ ev2, Raised e)
             | (self2, ev2, Pending) \<Rightarrow> (self2, ev1 @ ev2, Pending))
          else (self1, ev1, Returned ())
      | (self1, ev1, Raised e) \<Rightarrow> (self1, ev1, Raised e)
      | (self1, ev1, Pending) \<Rightarrow> (self1, ev1, Pending))"

text \<open>
  \<open>run\<close>: \<open>self._connection = self.connect()\<close>, then the IO loop starts.
\<close>

definition run ::
  "open_result list \<Rightarrow> 's async_consumer_scheme
     \<Rightarrow> 's async_consumer_scheme \<times> event list \<times> unit status" where
  "run script self =
     (case connect script self of
        (self1, ev, Returned c) \<Rightarrow>
          (self1\<lparr>self_connection := Some c\<rparr>, ev @ [IOLoopStart], Returned ())
      | (self1, ev, Raised e) \<Rightarrow> (self1, ev, Raised e)
      | (self1, ev, Pending) \<Rightarrow> (self1, ev, Pending))"

text \<open>
  \<open>AsyncConsumer.on_connection_closed\<close>: the channel is forgotten; when closing, the IO
  loop of the connection is stopped, otherwise \<open>reconnect\<close> runs at once.
  \<open>TornadoConsumer.on_connection_closed\<close> (which \<open>MessageConsumer\<close> inherits) differs in
  the last branch: \<open>ioloop.call_later(3, self.reconnect)\<close>, and \<open>reconnect\<close> runs when the
  timer fires. \<open>self._connection.ioloop\<close> raises \<open>AttributeError\<close> while no connection is
  stored.
\<close>

definition on_connection_closed ::
  "open_result list \<Rightarrow> 's async_consumer_scheme
     \<Rightarrow> 's async_consumer_scheme \<times> event list \<times> unit status" where
  "on_connection_closed script self =
     (if self_closing self then
        (case self_connection self of
           None \<Rightarrow> (self\<lparr>self_channel := None\<rparr>, [], Raised AttributeError)
         | Some c \<Rightarrow> (self\<lparr>self_channel := None\<rparr>, [IOLoopStop], Returned ()))
      else reconnect script (self\<lparr>self_channel := None\<rparr>))"

definition TornadoConsumer_on_connection_closed ::
  "open_result list \<Rightarrow> 's async_consumer_scheme
     \<Rightarrow> 's async_consumer_scheme \<times> event list \<times> unit status" where
  "TornadoConsumer_on_connection_closed script self =
     (case self_connection self of
        None \<Rightarrow> (self\<lparr>self_channel := None\<rparr>, [], Raised AttributeError)
      | Some c \<Rightarrow>
          if self_closing self then (self\<lparr>self_channel := None\<rparr>, [IOLoopStop], Returned ())
          else
            (case reconnect script (self\<lparr>self_channel := None\<rparr>) of
               (self1, ev, st) \<Rightarrow> (self1, [CallLater 3] @ ev, st)))"

definition on_connection_open_error ::
  "open_result list \<Rightarrow> 's async_consumer_scheme
     \<Rightarrow> 's async_consumer_scheme \<times> event list \<times> unit status" where
  "on_connection_open_error script self = reconnect script self"

text \<open>The URLs of the connection attempts, and the lengths of the sleeps, among the events.\<close>

fun attempted_urls :: "event list \<Rightarrow> string list" where
  "attempted_urls [] = []"
| "attempted_urls (Connecting u n # ev) = u # attempted_urls ev"
| "attempted_urls (e # ev) = attempted_urls ev"

fun sleeps :: "event list \<Rightarrow> int list" where
  "sleeps [] = []"
| "sleeps (Sleep n # ev) = n # sleeps ev"
| "sleeps (e # ev) = sleeps ev"

text \<open>
  The endpoint that line 73 and 75 reach for a counter value, in closed form: the index
  \<open>(counter mod N) - 1\<close>, read by Python from the end when it is \<open>-1\<close>, is
  \<open>(counter - 1) mod N\<close>.
\<close>

definition endpoint :: "string list \<Rightarrow> int \<Rightarrow> string" where
  "endpoint urls cnt = urls ! nat ((cnt - 1) mod int (length urls))"

text \<open>
  The events of \<open>k\<close> failed attempts in a row, the first at counter value \<open>c\<close>: each
  attempt is followed by a sleep of the counter's value, and the next runs at the
  counter plus one.
\<close>

fun failed_attempts :: "string list \<Rightarrow> int \<Rightarrow> nat \<Rightarrow> event list" where
  "failed_attempts urls c 0 = []"
| "failed_attempts urls c (Suc k) =
     [Connecting (endpoint urls c) c, Sleep c] @ failed_attempts urls (c + 1) k"

section \<open>Example objects\<close>

text \<open>
  A consumer on two broker URLs, and the delivery of the specification's scenarios:
  payload \<open>b"valid"\<close>, headers \<open>{tx_id: "abc123"}\<close>, \<open>app_id\<close> \<open>"svc"\<close>, delivery tag 7.
\<close>

definition example_urls :: "string list" where
  "example_urls = [''amqp://rabbit-a'', ''amqp://rabbit-b'']"

text \<open>An open channel accepts every RPC; a channel that is not open refuses every RPC.\<close>

definition example_open_channel :: channel where
  "example_open_channel = (\<lambda>rpc. Returns)"

definition example_closed_channel :: channel where
  "example_closed_channel = (\<lambda>rpc. Raises ChannelWrongStateError)"

text \<open>The example consumer is consuming: its channel is stored and open.\<close>

definition example_consumer :: "py_callable \<Rightarrow> publisher \<Rightarrow> bool \<Rightarrow> message_consumer" where
  "example_consumer proc qp check =
     (async_consumer.extend
        (AsyncConsumer_init True ''message'' ''topic'' ''survey'' example_urls)
        \<lparr> process = proc, quarantine_publisher = qp, check_tx_id = check \<rparr>)
       \<lparr> self_channel := Some example_open_channel \<rparr>"

definition example_process :: "call_result \<Rightarrow> py_callable" where
  "example_process r = Callable (\<lambda>text tx. r)"

definition example_publisher :: "call_result \<Rightarrow> publisher" where
  "example_publisher r = (\<lambda>b h. r)"

definition example_body :: bytes where
  "example_body = [118, 97, 108, 105, 100]"

definition example_decode :: "bytes \<Rightarrow> string option" where
  "example_decode b = (if b = example_body then Some ''valid'' else None)"

definition example_deliver :: basic_deliver where
  "example_deliver = \<lparr> delivery_tag = 7 \<rparr>"

definition example_properties :: basic_properties where
  "example_properties = \<lparr> headers = Some [(''tx_id'', ''abc123'')], app_id = Some ''svc'' \<rparr>"

definition example_bare_properties :: basic_properties where
  "example_bare_properties = \<lparr> headers = None, app_id = Some ''svc'' \<rparr>"

section \<open>Evaluation rules for the example objects\<close>

lemmas example_simps =
  example_consumer_def example_process_def example_publisher_def example_body_def
  example_decode_def example_deliver_def example_properties_def example_bare_properties_def
  example_urls_def example_open_channel_def example_closed_channel_def
  async_consumer.extend_def AsyncConsumer_init_def

lemmas on_message_simps =
  on_message_def dispatch_def try_body_def process_body_def quarantine_def quarantine_try_def
  tx_id_def acknowledge_message_def nack_message_def reject_message_def channel_rpc_def
  broker_actions_def

section \<open>Facts about the collaborators\<close>

lemma tx_id_cases:
  "tx_id properties = Inl TypeError \<or> tx_id properties = Inl KeyError
     \<or> (\<exists>t. tx_id properties = Inr t)"
  by (simp add: tx_id_def split: option.splits)

lemma channel_rpc_Some:
  "self_channel self = Some ch \<Longrightarrow>
   channel_rpc self rpc = ([rpc], (case ch rpc of Returns \<Rightarrow> None | Raises e \<Rightarrow> Some e))"
  by (simp add: channel_rpc_def)

lemma call_process_events:
  "fst (call_process p decoded tx) = [] \<or> fst (call_process p decoded tx) = [ProcessCall decoded tx]"
  by (cases p) simp_all

lemma on_message_dispatch:
  assumes "(check_tx_id self \<and> tx_id properties = Inr t \<and> tx = Some t)
           \<or> (\<not> check_tx_id self \<and> tx = None)"
  shows "on_message decode self deliver properties body
           = dispatch decode self (delivery_tag deliver) body tx"
  using assms by (auto simp: on_message_def)

lemma call_process_raises_not_TypeError:
  assumes "snd (call_process p decoded tx) = Raises e" and "e \<noteq> TypeError"
  shows "call_process p decoded tx = ([ProcessCall decoded tx], Raises e)"
  using assms by (cases p) (simp_all add: prod_eq_iff)

lemma call_process_returns:
  assumes "snd (call_process p decoded tx) = Returns"
  shows "call_process p decoded tx = ([ProcessCall decoded tx], Returns)"
  using assms by (cases p) (simp_all add: prod_eq_iff)

lemma quarantine_events:
  "set (fst (quarantine self tag body tx))
     \<subseteq> {PublishMessage body [(''tx_id'', tx)], BasicReject tag False, BasicReject tag True}"
  by (auto simp: quarantine_def quarantine_try_def reject_message_def channel_rpc_def
        split: call_result.splits option.splits if_splits prod.splits)

lemma quarantine_first_event:
  "hd (fst (quarantine self tag body tx)) = PublishMessage body [(''tx_id'', tx)]"
  by (auto simp: quarantine_def quarantine_try_def reject_message_def channel_rpc_def
        split: call_result.splits option.splits if_splits prod.splits)

text \<open>
  Without a stored channel nothing can be acknowledged: the attribute access raises, and
  the exception leaves \<open>on_message\<close> through the \<open>except Exception\<close> handler, whose own
  \<open>nack_message\<close> raises again. A delivery reaches \<open>on_message\<close> through the channel that
  \<open>on_channel_open\<close> has stored (line 162) before \<open>start_consuming\<close> registers the method
  (line 259), and only \<open>on_connection_closed\<close> clears the attribute; the statements
  below are about consumers with a stored channel.
\<close>

lemma on_message_without_channel:
  "on_message example_decode
     ((example_consumer (example_process Returns) (example_publisher Returns) True)
        \<lparr> self_channel := None \<rparr>)
     example_deliver example_properties example_body
     = ([ProcessCall ''valid'' (Some ''abc123'')], Some AttributeError)"
  by (simp add: example_simps on_message_simps)

section \<open>Deliveries: one acknowledgment each\<close>

text \<open>
  C1, as stated, fails. The acknowledgment of line 569 is inside the outer \<open>try\<close>: on a
  channel that is not open \<open>basic_ack\<close> raises, the \<open>except Exception\<close> handler calls
  \<open>basic_nack\<close>, and one delivery, whose callback returned, gets two acknowledgment RPCs.
\<close>

theorem on_message_two_actions_counterexample:
  "broker_actions
     (fst (on_message example_decode
             ((example_consumer (example_process Returns) (example_publisher Returns) True)
                \<lparr> self_channel := Some example_closed_channel \<rparr>)
             example_deliver example_properties example_body))
     = [BasicAck 7, BasicNack 7]"
  by (simp add: example_simps on_message_simps)

lemma dispatch_one_action:
  assumes cb: "\<forall>decoded tx. snd (call_process (process self) decoded tx) = Returns
                 \<or> (\<exists>e. snd (call_process (process self) decoded tx) = Raises e
                        \<and> isinstance_Exception e)"
    and qp: "\<forall>b h. quarantine_publisher self b h = Returns
                 \<or> quarantine_publisher self b h = Raises PublishMessageError"
    and ch: "self_channel self = Some ch"
    and ack: "ch (BasicAck tag) = Returns"
    and rej: "ch (BasicReject tag False) \<noteq> Raises PublishMessageError"
  shows "broker_actions (fst (dispatch decode self tag body tx))
           \<in> {[BasicAck tag], [BasicNack tag], [BasicReject tag False], [BasicReject tag True]}
         \<and> ((\<forall>rpc. ch rpc = Returns) \<longrightarrow> snd (dispatch decode self tag body tx) = None)"
proof (cases "decode body")
  case None
  then show ?thesis
    by (simp add: dispatch_def try_body_def process_body_def nack_message_def
          channel_rpc_Some [OF ch] broker_actions_def)
next
  case (Some decoded)
  from qp have q: "quarantine_publisher self body [(''tx_id'', tx)] = Returns
      \<or> quarantine_publisher self body [(''tx_id'', tx)] = Raises PublishMessageError"
    by blast
  obtain cev r where c: "call_process (process self) decoded tx = (cev, r)"
    by (cases "call_process (process self) decoded tx")
  have cev: "cev = [] \<or> cev = [ProcessCall decoded tx]"
    using call_process_events [of "process self" decoded tx] c by simp
  from cb c have "r = Returns \<or> (\<exists>e. r = Raises e \<and> isinstance_Exception e)"
    by (metis snd_conv)
  then show ?thesis
  proof (elim disjE exE conjE)
    assume "r = Returns"
    with Some c cev ack show ?thesis
      by (auto simp: dispatch_def try_body_def process_body_def acknowledge_message_def
            channel_rpc_Some [OF ch] broker_actions_def)
  next
    fix e assume "r = Raises e" "isinstance_Exception e"
    with Some c cev q rej show ?thesis
      by (auto simp: dispatch_def try_body_def process_body_def quarantine_def
            quarantine_try_def nack_message_def reject_message_def
            channel_rpc_Some [OF ch] broker_actions_def split: call_result.splits)
  qed
qed

text \<open>
  C1, amended. On a consumer with a stored channel, when the processing callback returns
  or raises an instance of \<open>Exception\<close> (\<open>RetryableError\<close>, \<open>QuarantinableError\<close>,
  \<open>BadMessageError\<close>, or any other), the quarantine publisher returns or raises
  \<open>PublishMessageError\<close>, and the acknowledgment does not fail (\<open>basic_ack\<close> for the tag
  returns, \<open>basic_reject\<close> without requeue does not raise \<open>PublishMessageError\<close>), the
  acknowledgment RPCs that \<open>on_message\<close> calls are exactly one \<open>basic_ack\<close>, \<open>basic_nack\<close>
  or \<open>basic_reject\<close> for the delivery tag: never none and never two, also when the
  quarantine publish fails, when the body does not decode, and when the \<open>tx_id\<close> is
  missing. If every RPC of the channel returns, \<open>on_message\<close> returns.
\<close>

theorem on_message_exactly_one_action:
  assumes "\<forall>decoded tx. snd (call_process (process self) decoded tx) = Returns
                 \<or> (\<exists>e. snd (call_process (process self) decoded tx) = Raises e
                        \<and> isinstance_Exception e)"
    and "\<forall>b h. quarantine_publisher self b h = Returns
                 \<or> quarantine_publisher self b h = Raises PublishMessageError"
    and "self_channel self = Some ch"
    and "ch (BasicAck (delivery_tag deliver)) = Returns"
    and "ch (BasicReject (delivery_tag deliver) False) \<noteq> Raises PublishMessageError"
  shows "broker_actions (fst (on_message decode self deliver properties body))
           \<in> {[BasicAck (delivery_tag deliver)], [BasicNack (delivery_tag deliver)],
               [BasicReject (delivery_tag deliver) False],
               [BasicReject (delivery_tag deliver) True]}
         \<and> ((\<forall>rpc. ch rpc = Returns) \<longrightarrow>
               snd (on_message decode self deliver properties body) = None)"
proof (cases "check_tx_id self")
  case False
  then show ?thesis
    using dispatch_one_action [OF assms] by (simp add: on_message_def)
next
  case True
  from tx_id_cases [of properties] show ?thesis
  proof (elim disjE exE)
    fix t assume "tx_id properties = Inr t"
    with True show ?thesis
      using dispatch_one_action [OF assms] by (simp add: on_message_def)
  qed (use True in \<open>simp_all add: on_message_def reject_message_def
         channel_rpc_Some [OF assms(3)] broker_actions_def\<close>)
qed

theorem on_message_exactly_one_action_witness:
  "(\<forall>decoded tx.
       snd (call_process (process (example_consumer (example_process (Raises QuarantinableError))
                                (example_publisher (Raises PublishMessageError)) True)) decoded tx)
         = Returns
       \<or> (\<exists>e. snd (call_process (process (example_consumer (example_process (Raises QuarantinableError))
                                (example_publisher (Raises PublishMessageError)) True)) decoded tx)
                  = Raises e \<and> isinstance_Exception e))
   \<and> (\<forall>b h.
       quarantine_publisher (example_consumer (example_process (Raises QuarantinableError))
                                (example_publisher (Raises PublishMessageError)) True) b h
         = Returns
       \<or> quarantine_publisher (example_consumer (example_process (Raises QuarantinableError))
                                (example_publisher (Raises PublishMessageError)) True) b h
         = Raises PublishMessageError)
   \<and> self_channel (example_consumer (example_process (Raises QuarantinableError))
                      (example_publisher (Raises PublishMessageError)) True)
       = Some example_open_channel
   \<and> example_open_channel (BasicAck (delivery_tag example_deliver)) = Returns
   \<and> example_open_channel (BasicReject (delivery_tag example_deliver) False)
       \<noteq> Raises PublishMessageError
   \<and> broker_actions
        (fst (on_message example_decode
                (example_consumer (example_process (Raises QuarantinableError))
                   (example_publisher (Raises PublishMessageError)) True)
                example_deliver example_properties example_body))
       = [BasicReject 7 True]"
proof -
  let ?c = "example_consumer (example_process (Raises QuarantinableError))
              (example_publisher (Raises PublishMessageError)) True"
  have h1: "\<forall>decoded tx. snd (call_process (process ?c) decoded tx) = Returns
              \<or> (\<exists>e. snd (call_process (process ?c) decoded tx) = Raises e
                     \<and> isinstance_Exception e)"
    by (simp add: example_simps)
  have h2: "\<forall>b h. quarantine_publisher ?c b h = Returns
              \<or> quarantine_publisher ?c b h = Raises PublishMessageError"
    by (simp add: example_simps)
  have h3: "self_channel ?c = Some example_open_channel"
    by (simp add: example_consumer_def)
  have h4: "example_open_channel (BasicAck (delivery_tag example_deliver)) = Returns"
    by (simp add: example_open_channel_def)
  have h5: "example_open_channel (BasicReject (delivery_tag example_deliver) False)
              \<noteq> Raises PublishMessageError"
    by (simp add: example_open_channel_def)
  from on_message_exactly_one_action
         [OF h1 h2 h3 h4 h5, of example_decode example_properties example_body]
  show ?thesis using h1 h2 h3 h4 h5 by (simp add: example_simps on_message_simps)
qed

section \<open>Quarantine\<close>



section \<open>Malformed deliveries\<close>

text \<open>
  C3. With \<open>check_tx_id\<close> set, on a consumer with a stored channel, a delivery whose
  properties have no headers table, or a headers table without the key \<open>tx_id\<close>, is
  rejected once without requeue; that RPC is the only event, so the processing callback
  is not called, and \<open>on_message\<close> ends as the rejection does.
\<close>

theorem on_message_missing_tx_id:
  assumes "check_tx_id self"
    and "headers properties = None
         \<or> (\<exists>h. headers properties = Some h \<and> ''tx_id'' \<notin> fst ` set h)"
    and "self_channel self = Some ch"
  shows "on_message decode self deliver properties body
           = ([BasicReject (delivery_tag deliver) False],
              (case ch (BasicReject (delivery_tag deliver) False) of
                 Returns \<Rightarrow> None | Raises x \<Rightarrow> Some x))"
proof -
  have "tx_id properties = Inl TypeError \<or> tx_id properties = Inl KeyError"
    using assms(2) by (auto simp: tx_id_def map_of_eq_None_iff [THEN iffD2])
  then show ?thesis
    using assms(1)
    by (auto simp: on_message_def reject_message_def channel_rpc_Some [OF assms(3)])
qed

theorem on_message_missing_tx_id_witness:
  "check_tx_id (example_consumer (example_process Returns) (example_publisher Returns) True)
   \<and> headers example_bare_properties = None
   \<and> self_channel (example_consumer (example_process Returns) (example_publisher Returns) True)
       = Some example_open_channel
   \<and> on_message example_decode
        (example_consumer (example_process Returns) (example_publisher Returns) True)
        example_deliver example_bare_properties example_body
      = ([BasicReject 7 False], None)"
proof -
  let ?c = "example_consumer (example_process Returns) (example_publisher Returns) True"
  have h1: "check_tx_id ?c" by (simp add: example_simps)
  have h2: "headers example_bare_properties = None
            \<or> (\<exists>h. headers example_bare_properties = Some h \<and> ''tx_id'' \<notin> fst ` set h)"
    by (simp add: example_bare_properties_def)
  have h3: "self_channel ?c = Some example_open_channel"
    by (simp add: example_consumer_def)
  from on_message_missing_tx_id
         [OF h1 h2 h3, of example_decode example_deliver example_body]
  show ?thesis
    using h1 h3
    by (simp add: example_bare_properties_def example_deliver_def example_open_channel_def)
qed

section \<open>Accepted and retryable deliveries\<close>

text \<open>
  C9, as stated, fails: the callback returns, the channel is not open, and \<open>on_message\<close>
  calls \<open>basic_nack\<close> after the \<open>basic_ack\<close> that raised.
\<close>

theorem on_message_nack_after_ack_counterexample:
  "on_message example_decode
     ((example_consumer (example_process Returns) (example_publisher Returns) True)
        \<lparr> self_channel := Some example_closed_channel \<rparr>)
     example_deliver example_properties example_body
     = ([ProcessCall ''valid'' (Some ''abc123''), BasicAck 7, BasicNack 7],
        Some ChannelWrongStateError)"
  by (simp add: example_simps on_message_simps)

text \<open>
  C9, amended. On a consumer with a stored channel: when the callback returns,
  \<open>on_message\<close> calls \<open>basic_ack\<close> for the delivery tag once; if that call returns,
  nothing else is sent, and if it raises an instance of \<open>Exception\<close> (other than the two
  quarantinable classes), one \<open>basic_nack\<close> follows it. When the callback raises
  \<open>RetryableError\<close>, or any instance of \<open>Exception\<close> other than \<open>TypeError\<close>,
  \<open>QuarantinableError\<close> and \<open>BadMessageError\<close>, \<open>on_message\<close> calls \<open>basic_nack\<close> once
  and nothing else: the quarantine publisher is not called.
\<close>

theorem on_message_ack_or_nack:
  assumes "decode body = Some decoded"
    and "(check_tx_id self \<and> tx_id properties = Inr t \<and> tx = Some t)
         \<or> (\<not> check_tx_id self \<and> tx = None)"
    and "self_channel self = Some ch"
  shows "(snd (call_process (process self) decoded tx) = Returns
          \<and> ch (BasicAck (delivery_tag deliver)) = Returns \<longrightarrow>
            on_message decode self deliver properties body
              = ([ProcessCall decoded tx, BasicAck (delivery_tag deliver)], None))
       \<and> (snd (call_process (process self) decoded tx) = Returns
          \<and> ch (BasicAck (delivery_tag deliver)) = Raises x
          \<and> isinstance_Exception x \<and> x \<notin> {QuarantinableError, BadMessageError} \<longrightarrow>
            on_message decode self deliver properties body
              = ([ProcessCall decoded tx, BasicAck (delivery_tag deliver),
                  BasicNack (delivery_tag deliver)],
                 (case ch (BasicNack (delivery_tag deliver)) of
                    Returns \<Rightarrow> None | Raises y \<Rightarrow> Some y)))
       \<and> (snd (call_process (process self) decoded tx) = Raises e
            \<and> (e = RetryableError
                \<or> (isinstance_Exception e
                    \<and> e \<notin> {TypeError, QuarantinableError, BadMessageError})) \<longrightarrow>
            on_message decode self deliver properties body
              = ([ProcessCall decoded tx, BasicNack (delivery_tag deliver)],
                 (case ch (BasicNack (delivery_tag deliver)) of
                    Returns \<Rightarrow> None | Raises y \<Rightarrow> Some y)))"
proof (intro conjI impI)
  assume "snd (call_process (process self) decoded tx) = Returns
          \<and> ch (BasicAck (delivery_tag deliver)) = Returns"
  then show "on_message decode self deliver properties body
               = ([ProcessCall decoded tx, BasicAck (delivery_tag deliver)], None)"
    using assms(1) call_process_returns [of "process self" decoded tx]
    by (simp add: on_message_dispatch [OF assms(2)] dispatch_def try_body_def process_body_def
          acknowledge_message_def channel_rpc_Some [OF assms(3)])
next
  assume "snd (call_process (process self) decoded tx) = Returns
          \<and> ch (BasicAck (delivery_tag deliver)) = Raises x
          \<and> isinstance_Exception x \<and> x \<notin> {QuarantinableError, BadMessageError}"
  then show "on_message decode self deliver properties body
               = ([ProcessCall decoded tx, BasicAck (delivery_tag deliver),
                   BasicNack (delivery_tag deliver)],
                  (case ch (BasicNack (delivery_tag deliver)) of
                     Returns \<Rightarrow> None | Raises y \<Rightarrow> Some y))"
    using assms(1) call_process_returns [of "process self" decoded tx]
    by (simp add: on_message_dispatch [OF assms(2)] dispatch_def try_body_def process_body_def
          acknowledge_message_def nack_message_def channel_rpc_Some [OF assms(3)])
next
  assume a: "snd (call_process (process self) decoded tx) = Raises e
            \<and> (e = RetryableError
                \<or> (isinstance_Exception e
                    \<and> e \<notin> {TypeError, QuarantinableError, BadMessageError}))"
  then have "e \<noteq> TypeError" by auto
  with a have "call_process (process self) decoded tx = ([ProcessCall decoded tx], Raises e)"
    using call_process_raises_not_TypeError [of "process self" decoded tx e] by simp
  with a show "on_message decode self deliver properties body
               = ([ProcessCall decoded tx, BasicNack (delivery_tag deliver)],
                  (case ch (BasicNack (delivery_tag deliver)) of
                     Returns \<Rightarrow> None | Raises y \<Rightarrow> Some y))"
    using assms(1)
    by (auto simp: on_message_dispatch [OF assms(2)] dispatch_def try_body_def process_body_def
          nack_message_def channel_rpc_Some [OF assms(3)])
qed

theorem on_message_ack_or_nack_witness:
  "example_decode example_body = Some ''valid''
   \<and> check_tx_id (example_consumer (example_process Returns) (example_publisher Returns) True)
   \<and> tx_id example_properties = Inr ''abc123''
   \<and> self_channel (example_consumer (example_process Returns) (example_publisher Returns) True)
       = Some example_open_channel
   \<and> snd (call_process (process (example_consumer (example_process Returns)
                                    (example_publisher Returns) True)) ''valid'' (Some ''abc123''))
       = Returns
   \<and> example_open_channel (BasicAck (delivery_tag example_deliver)) = Returns
   \<and> on_message example_decode
        (example_consumer (example_process Returns) (example_publisher Returns) True)
        example_deliver example_properties example_body
       = ([ProcessCall ''valid'' (Some ''abc123''), BasicAck (delivery_tag example_deliver)], None)"
proof -
  let ?c = "example_consumer (example_process Returns) (example_publisher Returns) True"
  have h1: "example_decode example_body = Some ''valid''"
    by (simp add: example_decode_def)
  have h2: "(check_tx_id ?c \<and> tx_id example_properties = Inr ''abc123''
               \<and> Some ''abc123'' = Some ''abc123'')
            \<or> (\<not> check_tx_id ?c \<and> Some ''abc123'' = None)"
    by (simp add: example_simps tx_id_def)
  have h3: "self_channel ?c = Some example_open_channel"
    by (simp add: example_consumer_def)
  have h4: "snd (call_process (process ?c) ''valid'' (Some ''abc123'')) = Returns"
    by (simp add: example_simps)
  have h5: "example_open_channel (BasicAck (delivery_tag example_deliver)) = Returns"
    by (simp add: example_open_channel_def)
  from on_message_ack_or_nack
         [where decode = example_decode and body = example_body and deliver = example_deliver,
          OF h1 h2 h3, THEN conjunct1, rule_format, OF conjI [OF h4 h5]]
  show ?thesis using h1 h2 h3 h4 h5 by simp
qed

section \<open>\<open>TypeError\<close> from the callback\<close>

text \<open>
  C10. A \<open>TypeError\<close> raised by the call of the processing callback, whether at the call
  (wrong arity, an object that is not callable) or inside the callback's body, takes the
  quarantine path, for every state of the channel: after the events of the call,
  \<open>on_message\<close> does what the handler of \<open>QuarantinableError\<close> does, beginning with the
  publish of the raw body and the \<open>tx_id\<close> header, and it calls neither \<open>basic_nack\<close> nor
  \<open>basic_ack\<close>. On a channel that accepts the RPC the rejection follows the publish:
  without requeue when the publisher returns, with requeue on \<open>PublishMessageError\<close>.
\<close>

theorem on_message_type_error:
  assumes "decode body = Some decoded"
    and "(check_tx_id self \<and> tx_id properties = Inr t \<and> tx = Some t)
         \<or> (\<not> check_tx_id self \<and> tx = None)"
    and "snd (call_process (process self) decoded tx) = Raises TypeError"
  shows "on_message decode self deliver properties body
           = (fst (call_process (process self) decoded tx)
                @ fst (quarantine self (delivery_tag deliver) body tx),
              snd (quarantine self (delivery_tag deliver) body tx))
       \<and> hd (fst (quarantine self (delivery_tag deliver) body tx))
           = PublishMessage body [(''tx_id'', tx)]
       \<and> (\<forall>n. BasicNack n \<notin> set (fst (on_message decode self deliver properties body))
              \<and> BasicAck n \<notin> set (fst (on_message decode self deliver properties body)))
       \<and> (self_channel self = Some ch \<and> (\<forall>rpc. ch rpc = Returns) \<longrightarrow>
            on_message decode self deliver properties body
              = (case quarantine_publisher self body [(''tx_id'', tx)] of
                   Returns \<Rightarrow>
                     (fst (call_process (process self) decoded tx)
                        @ [PublishMessage body [(''tx_id'', tx)],
                           BasicReject (delivery_tag deliver) False], None)
                 | Raises pe \<Rightarrow>
                     if pe = PublishMessageError
                     then (fst (call_process (process self) decoded tx)
                             @ [PublishMessage body [(''tx_id'', tx)],
                                BasicReject (delivery_tag deliver) True], None)
                     else (fst (call_process (process self) decoded tx)
                             @ [PublishMessage body [(''tx_id'', tx)]], Some pe)))"
proof -
  obtain cev where c: "call_process (process self) decoded tx = (cev, Raises TypeError)"
    using assms(3) by (cases "call_process (process self) decoded tx") simp
  have cev: "cev = [] \<or> cev = [ProcessCall decoded tx]"
    using call_process_events [of "process self" decoded tx] c by simp
  have m: "on_message decode self deliver properties body
           = (cev @ fst (quarantine self (delivery_tag deliver) body tx),
              snd (quarantine self (delivery_tag deliver) body tx))"
    using assms(1) c
    by (simp add: on_message_dispatch [OF assms(2)] dispatch_def try_body_def process_body_def
          split: prod.splits)
  have n: "BasicNack n \<notin> set (fst (on_message decode self deliver properties body))
           \<and> BasicAck n \<notin> set (fst (on_message decode self deliver properties body))" for n
    using quarantine_events [of self "delivery_tag deliver" body tx] cev
    by (auto simp: m)
  have x: "on_message decode self deliver properties body
              = (case quarantine_publisher self body [(''tx_id'', tx)] of
                   Returns \<Rightarrow>
                     (cev @ [PublishMessage body [(''tx_id'', tx)],
                             BasicReject (delivery_tag deliver) False], None)
                 | Raises pe \<Rightarrow>
                     if pe = PublishMessageError
                     then (cev @ [PublishMessage body [(''tx_id'', tx)],
                                  BasicReject (delivery_tag deliver) True], None)
                     else (cev @ [PublishMessage body [(''tx_id'', tx)]], Some pe))"
    if "self_channel self = Some ch" "\<forall>rpc. ch rpc = Returns"
    using that(2)
    by (simp add: m quarantine_def quarantine_try_def reject_message_def
          channel_rpc_Some [OF that(1)] split: call_result.splits)
  have cf: "fst (call_process (process self) decoded tx) = cev"
    by (simp add: c)
  show ?thesis
    unfolding cf
    using m n x quarantine_first_event [of self "delivery_tag deliver" body tx]
    by blast
qed

theorem on_message_type_error_witness:
  "example_decode example_body = Some ''valid''
   \<and> check_tx_id (example_consumer (example_process (Raises TypeError))
                    (example_publisher (Raises PublishMessageError)) True)
   \<and> tx_id example_properties = Inr ''abc123''
   \<and> snd (call_process (process (example_consumer (example_process (Raises TypeError))
                               (example_publisher (Raises PublishMessageError)) True))
        ''valid'' (Some ''abc123'')) = Raises TypeError
   \<and> on_message example_decode
        (example_consumer (example_process (Raises TypeError))
           (example_publisher (Raises PublishMessageError)) True)
        example_deliver example_properties example_body
       = ([ProcessCall ''valid'' (Some ''abc123''),
           PublishMessage example_body [(''tx_id'', Some ''abc123'')],
           BasicReject (delivery_tag example_deliver) True], None)"
proof -
  let ?c = "example_consumer (example_process (Raises TypeError))
              (example_publisher (Raises PublishMessageError)) True"
  have h1: "example_decode example_body = Some ''valid''"
    by (simp add: example_decode_def)
  have h2: "(check_tx_id ?c \<and> tx_id example_properties = Inr ''abc123''
               \<and> Some ''abc123'' = Some ''abc123'')
            \<or> (\<not> check_tx_id ?c \<and> Some ''abc123'' = None)"
    by (simp add: example_simps tx_id_def)
  have h3: "snd (call_process (process ?c) ''valid'' (Some ''abc123'')) = Raises TypeError"
    by (simp add: example_simps)
  have h4: "self_channel ?c = Some example_open_channel \<and> (\<forall>rpc. example_open_channel rpc = Returns)"
    by (simp add: example_consumer_def example_open_channel_def)
  have h5: "quarantine_publisher ?c example_body [(''tx_id'', Some ''abc123'')]
              = Raises PublishMessageError"
    by (simp add: example_consumer_def example_publisher_def async_consumer.extend_def
          AsyncConsumer_init_def)
  have h6: "fst (call_process (process ?c) ''valid'' (Some ''abc123''))
              = [ProcessCall ''valid'' (Some ''abc123'')]"
    by (simp add: example_simps)
  from on_message_type_error
         [where decode = example_decode and body = example_body and deliver = example_deliver
            and ch = example_open_channel,
          OF h1 h2 h3, THEN conjunct2, THEN conjunct2, THEN conjunct2, rule_format, OF h4]
  show ?thesis using h1 h2 h3 h5 h6 by simp
qed

text \<open>
  The same delivery with a callable of the wrong arity: no body runs, and the events are
  the publish and the rejection.
\<close>

lemma on_message_wrong_arity_example:
  "on_message example_decode
     (example_consumer CallableWrongArity (example_publisher Returns) True)
     example_deliver example_properties example_body
     = ([PublishMessage example_body [(''tx_id'', Some ''abc123'')], BasicReject 7 False], None)"
  by (simp add: example_simps on_message_simps)

section \<open>Endpoint selection\<close>

lemma pred_mod_zero:
  fixes c n :: int
  assumes "0 < n" "c mod n = 0"
  shows "(c - 1) mod n = n - 1"
proof -
  have "(c - 1) mod n = (c mod n - 1) mod n" by (simp add: mod_diff_left_eq)
  also have "\<dots> = (- 1) mod n" using assms(2) by simp
  also have "\<dots> = n - 1" using assms(1) by (simp add: zmod_minus1)
  finally show ?thesis .
qed

lemma pred_mod_nonzero:
  fixes c n :: int
  assumes "0 < n" "c mod n \<noteq> 0"
  shows "(c - 1) mod n = c mod n - 1"
proof -
  have r: "0 \<le> c mod n" "c mod n < n" using assms(1) by simp_all
  have "(c - 1) mod n = (c mod n - 1) mod n" by (simp add: mod_diff_left_eq)
  also have "\<dots> = c mod n - 1" using r assms(2) by (intro mod_pos_pos_trivial) linarith+
  finally show ?thesis .
qed

lemma py_index_pred:
  assumes "0 \<le> m" "m < int (length xs)"
  shows "py_index xs (m - 1) = Inr (xs ! nat (if m = 0 then int (length xs) - 1 else m - 1))"
proof (cases "m = 0")
  case True
  then show ?thesis using assms by (cases xs) (simp_all add: py_index_def)
next
  case False
  then have "0 \<le> m - 1" "m - 1 < int (length xs)" using assms by linarith+
  then show ?thesis using False by (simp add: py_index_def)
qed

lemma select_url_endpoint:
  assumes "self_rabbit_urls self \<noteq> []"
  shows "select_url self (int (length (self_rabbit_urls self)))
           = Inr (endpoint (self_rabbit_urls self) (self_count self))"
proof -
  let ?n = "int (length (self_rabbit_urls self))"
  let ?c = "self_count self"
  have n: "0 < ?n" using assms by simp
  have r: "0 \<le> ?c mod ?n" "?c mod ?n < ?n" using n by simp_all
  have e: "(?c - 1) mod ?n = (if ?c mod ?n = 0 then ?n - 1 else ?c mod ?n - 1)"
    using n pred_mod_zero [of ?n ?c] pred_mod_nonzero [of ?n ?c] by presburger
  have "select_url self ?n = py_index (self_rabbit_urls self) (?c mod ?n - 1)"
    using n by (simp add: select_url_def server_choice_def)
  also have "\<dots> = Inr (self_rabbit_urls self ! nat (if ?c mod ?n = 0 then ?n - 1 else ?c mod ?n - 1))"
    using r by (rule py_index_pred)
  also have "\<dots> = Inr (endpoint (self_rabbit_urls self) ?c)"
    unfolding endpoint_def e ..
  finally show ?thesis .
qed

lemma connect_loop_urls:
  "self_rabbit_urls (fst (connect_loop script n self)) = self_rabbit_urls self"
proof (induction script arbitrary: self)
  case Nil
  show ?case by (simp split: sum.splits)
next
  case (Cons r script)
  show ?case
  proof (cases "select_url self n")
    case (Inl e)
    then show ?thesis by simp
  next
    case (Inr u)
    have "self_rabbit_urls
            (fst (connect_loop script n (self\<lparr>self_url := Some u, self_count := self_count self + 1\<rparr>)))
          = self_rabbit_urls self"
      by (simp add: Cons.IH)
    with Inr show ?thesis
      by (auto simp: delay_before_reconnect_def split: open_result.splits prod.splits)
  qed
qed

text \<open>
  C4, as stated, fails: a \<open>MessageConsumer\<close> given an empty URL list and a callable is
  constructed without an exception.
\<close>

theorem constructor_accepts_empty_urls_counterexample:
  "\<not> isl (MessageConsumer_init True ''message'' ''topic'' ''survey'' []
             (example_publisher Returns) (example_process Returns) True)"
  by (simp add: MessageConsumer_init_def example_process_def)

text \<open>
  C4, amended. Neither constructor looks at \<open>rabbit_urls\<close>: with an empty list and a
  callable \<open>process\<close> the construction succeeds. The empty list surfaces in \<open>connect\<close>,
  which raises \<open>ZeroDivisionError\<close> at \<open>self._count % no_of_servers\<close>, before any
  connection attempt, whatever the broker would have answered.
\<close>

theorem empty_urls_surface_in_connect:
  "\<not> isl (MessageConsumer_init d e t q [] qp (Callable f) chk)
   \<and> (\<forall>c. MessageConsumer_init d e t q [] qp (Callable f) chk = Inr c \<longrightarrow>
          connect script c = (c, [], Raised ZeroDivisionError))
   \<and> connect script (AsyncConsumer_init d e t q [])
       = (AsyncConsumer_init d e t q [], [], Raised ZeroDivisionError)"
  by (cases script)
     (auto simp: MessageConsumer_init_def AsyncConsumer_init_def connect_def select_url_def
        server_choice_def async_consumer.extend_def)

theorem empty_urls_surface_in_connect_witness:
  "MessageConsumer_init True ''message'' ''topic'' ''survey'' []
      (example_publisher Returns) (Callable (\<lambda>text tx. Returns)) True
     = Inr (async_consumer.extend (AsyncConsumer_init True ''message'' ''topic'' ''survey'' [])
              \<lparr> process = Callable (\<lambda>text tx. Returns),
                quarantine_publisher = example_publisher Returns, check_tx_id = True \<rparr>)
   \<and> connect [Opened 0]
        (async_consumer.extend (AsyncConsumer_init True ''message'' ''topic'' ''survey'' [])
              \<lparr> process = Callable (\<lambda>text tx. Returns),
                quarantine_publisher = example_publisher Returns, check_tx_id = True \<rparr>)
     = (async_consumer.extend (AsyncConsumer_init True ''message'' ''topic'' ''survey'' [])
              \<lparr> process = Callable (\<lambda>text tx. Returns),
                quarantine_publisher = example_publisher Returns, check_tx_id = True \<rparr>,
        [], Raised ZeroDivisionError)"
proof -
  have h: "MessageConsumer_init True ''message'' ''topic'' ''survey'' []
      (example_publisher Returns) (Callable (\<lambda>text tx. Returns)) True
     = Inr (async_consumer.extend (AsyncConsumer_init True ''message'' ''topic'' ''survey'' [])
              \<lparr> process = Callable (\<lambda>text tx. Returns),
                quarantine_publisher = example_publisher Returns, check_tx_id = True \<rparr>)"
    by (simp add: MessageConsumer_init_def)
  from empty_urls_surface_in_connect
         [of True "''message''" "''topic''" "''survey''" "example_publisher Returns"
             "\<lambda>text tx. Returns" True "[Opened 0]"]
  show ?thesis using h by blast
qed

text \<open>
  C5, as stated, fails: on two URLs and a fresh counter (1), the code selects the first
  URL, not the one at index \<open>1 mod 2\<close>.
\<close>

theorem connect_selects_counter_mod_counterexample:
  "select_url (AsyncConsumer_init True ''message'' ''topic'' ''survey'' example_urls)
       (int (length example_urls))
     = Inr ''amqp://rabbit-a''
   \<and> example_urls
       ! nat (self_count (AsyncConsumer_init True ''message'' ''topic'' ''survey'' example_urls)
              mod int (length example_urls))
     = ''amqp://rabbit-b''
   \<and> select_url (AsyncConsumer_init True ''message'' ''topic'' ''survey'' example_urls)
       (int (length example_urls))
     \<noteq> Inr (example_urls
              ! nat (self_count
                       (AsyncConsumer_init True ''message'' ''topic'' ''survey'' example_urls)
                     mod int (length example_urls)))"
  by (simp add: select_url_def server_choice_def py_index_def AsyncConsumer_init_def
        example_urls_def)

text \<open>
  C5, amended. On a non-empty list of \<open>N\<close> URLs, an attempt at counter value \<open>c\<close> selects
  the URL at index \<open>(c mod N) - 1\<close>, which Python reads from the end when it is \<open>-1\<close>:
  the URL at index \<open>(c - 1) mod N\<close>. It is the URL of the first attempt of \<open>connect\<close>, and
  \<open>connect\<close> leaves the list as it was, however many attempts it makes.
\<close>

theorem connect_selects_endpoint:
  assumes "self_rabbit_urls self \<noteq> []"
  shows "select_url self (int (length (self_rabbit_urls self)))
           = Inr (self_rabbit_urls self
                    ! nat ((self_count self - 1) mod int (length (self_rabbit_urls self))))
       \<and> hd (fst (snd (connect script self)))
           = Connecting
               (self_rabbit_urls self
                  ! nat ((self_count self - 1) mod int (length (self_rabbit_urls self))))
               (self_count self)
       \<and> self_rabbit_urls (fst (connect script self)) = self_rabbit_urls self"
proof -
  have s: "select_url self (int (length (self_rabbit_urls self)))
             = Inr (endpoint (self_rabbit_urls self) (self_count self))"
    using assms by (rule select_url_endpoint)
  have "hd (fst (snd (connect script self)))
          = Connecting (endpoint (self_rabbit_urls self) (self_count self)) (self_count self)"
    by (cases script)
       (auto simp: connect_def s delay_before_reconnect_def
          split: open_result.splits prod.splits status.splits)
  then show ?thesis
    using s by (simp add: endpoint_def connect_def connect_loop_urls)
qed

theorem connect_selects_endpoint_witness:
  "self_rabbit_urls (AsyncConsumer_init True ''message'' ''topic'' ''survey'' example_urls) \<noteq> []
   \<and> select_url (AsyncConsumer_init True ''message'' ''topic'' ''survey'' example_urls) 2
       = Inr ''amqp://rabbit-a''"
proof -
  have h: "self_rabbit_urls (AsyncConsumer_init True ''message'' ''topic'' ''survey'' example_urls)
             \<noteq> []"
    by (simp add: AsyncConsumer_init_def example_urls_def)
  from connect_selects_endpoint [OF h, of "[]"] show ?thesis
    using h by (simp add: AsyncConsumer_init_def example_urls_def)
qed

section \<open>Failed attempts in a row\<close>

lemma delay_before_reconnect_ok:
  "0 \<le> self_count self \<Longrightarrow>
   delay_before_reconnect self
     = (self\<lparr>self_count := self_count self + 1\<rparr>, [Sleep (self_count self)], Returned ())"
  by (simp add: delay_before_reconnect_def)

lemma connect_loop_fail_step:
  assumes "self_rabbit_urls self \<noteq> []" "0 \<le> self_count self"
    and "n = int (length (self_rabbit_urls self))"
  shows "connect_loop (OpenRaises AMQPConnectionError # script) n self
           = (case connect_loop script n
                     (self\<lparr>self_url := Some (endpoint (self_rabbit_urls self) (self_count self)),
                           self_count := self_count self + 1\<rparr>) of
                (self3, ev3, st) \<Rightarrow>
                  (self3,
                   [Connecting (endpoint (self_rabbit_urls self) (self_count self)) (self_count self),
                    Sleep (self_count self)] @ ev3,
                   st))"
  using assms select_url_endpoint [OF assms(1)]
  by (simp add: delay_before_reconnect_ok split: prod.splits)

lemma connect_loop_failures_then_open:
  assumes "self_rabbit_urls self \<noteq> []" "0 \<le> self_count self"
    and "n = int (length (self_rabbit_urls self))"
  shows "connect_loop (replicate k (OpenRaises AMQPConnectionError) @ [Opened h]) n self
           = (self\<lparr>self_url := Some (endpoint (self_rabbit_urls self) (self_count self + int k)),
                    self_count := self_count self + int k\<rparr>,
              failed_attempts (self_rabbit_urls self) (self_count self) k
                @ [Connecting (endpoint (self_rabbit_urls self) (self_count self + int k))
                     (self_count self + int k)],
              Returned h)"
  using assms
proof (induction k arbitrary: self)
  case 0
  then show ?case using select_url_endpoint [of self] by simp
next
  case (Suc k)
  let ?self2 = "self\<lparr>self_url := Some (endpoint (self_rabbit_urls self) (self_count self)),
                       self_count := self_count self + 1\<rparr>"
  have "self_rabbit_urls ?self2 \<noteq> []" "0 \<le> self_count ?self2"
       "n = int (length (self_rabbit_urls ?self2))"
    using Suc.prems by simp_all
  from Suc.IH [OF this] show ?case
    using Suc.prems by (simp add: connect_loop_fail_step add.assoc del: connect_loop.simps)
qed

lemma connect_loop_failures_pending:
  assumes "self_rabbit_urls self \<noteq> []" "0 \<le> self_count self"
    and "n = int (length (self_rabbit_urls self))"
  shows "connect_loop (replicate k (OpenRaises AMQPConnectionError)) n self
           = (self\<lparr>self_url := Some (endpoint (self_rabbit_urls self) (self_count self + int k)),
                    self_count := self_count self + int k\<rparr>,
              failed_attempts (self_rabbit_urls self) (self_count self) k
                @ [Connecting (endpoint (self_rabbit_urls self) (self_count self + int k))
                     (self_count self + int k)],
              Pending)"
  using assms
proof (induction k arbitrary: self)
  case 0
  then show ?case using select_url_endpoint [of self] by simp
next
  case (Suc k)
  let ?self2 = "self\<lparr>self_url := Some (endpoint (self_rabbit_urls self) (self_count self)),
                       self_count := self_count self + 1\<rparr>"
  have "self_rabbit_urls ?self2 \<noteq> []" "0 \<le> self_count ?self2"
       "n = int (length (self_rabbit_urls ?self2))"
    using Suc.prems by simp_all
  from Suc.IH [OF this] show ?case
    using Suc.prems by (simp add: connect_loop_fail_step add.assoc del: connect_loop.simps)
qed

text \<open>
  \<open>reconnect\<close> sleeps before it connects: its first attempt runs at the counter plus
  one.
\<close>

lemma reconnect_failures_then_open:
  assumes "self_rabbit_urls self \<noteq> []" and "0 \<le> self_count self" and "\<not> self_closing self"
  shows "reconnect (replicate k (OpenRaises AMQPConnectionError) @ [Opened h]) self
           = (self\<lparr>self_url := Some (endpoint (self_rabbit_urls self) (self_count self + 1 + int k)),
                    self_count := self_count self + 1 + int k,
                    self_connection := Some h\<rparr>,
              [Sleep (self_count self)]
                @ failed_attempts (self_rabbit_urls self) (self_count self + 1) k
                @ [Connecting (endpoint (self_rabbit_urls self) (self_count self + 1 + int k))
                     (self_count self + 1 + int k)],
              Returned ())"
proof -
  let ?s1 = "self\<lparr>self_count := self_count self + 1\<rparr>"
  have "self_rabbit_urls ?s1 \<noteq> []" "0 \<le> self_count ?s1"
       "int (length (self_rabbit_urls self)) = int (length (self_rabbit_urls ?s1))"
    using assms(1,2) by simp_all
  then have "connect_loop (replicate k (OpenRaises AMQPConnectionError) @ [Opened h])
               (int (length (self_rabbit_urls self))) ?s1
             = (?s1\<lparr>self_url := Some (endpoint (self_rabbit_urls ?s1) (self_count ?s1 + int k)),
                      self_count := self_count ?s1 + int k\<rparr>,
                failed_attempts (self_rabbit_urls ?s1) (self_count ?s1) k
                  @ [Connecting (endpoint (self_rabbit_urls ?s1) (self_count ?s1 + int k))
                       (self_count ?s1 + int k)],
                Returned h)"
    by (rule connect_loop_failures_then_open)
  then show ?thesis
    using assms by (simp add: reconnect_def delay_before_reconnect_ok connect_def)
qed

lemma failed_attempts_concat:
  "failed_attempts urls c k
     = concat (map (\<lambda>i. [Connecting (endpoint urls (c + int i)) (c + int i), Sleep (c + int i)])
                 [0..<k])"
proof (induction k arbitrary: c)
  case 0
  show ?case by simp
next
  case (Suc k)
  have "[0..<Suc k] = 0 # map Suc [0..<k]"
    by (simp add: upt_conv_Cons map_Suc_upt del: upt_Suc)
  then show ?case using Suc.IH [of "c + 1"]
    by (simp add: o_def add.assoc del: upt_Suc)
qed

lemma sleeps_failed_attempts:
  "sleeps (failed_attempts urls c k @ ev) = map (\<lambda>i. c + int i) [0..<k] @ sleeps ev"
proof (induction k arbitrary: c)
  case 0
  show ?case by simp
next
  case (Suc k)
  have "[0..<Suc k] = 0 # map Suc [0..<k]"
    by (simp add: upt_conv_Cons map_Suc_upt del: upt_Suc)
  then show ?case using Suc.IH [of "c + 1"]
    by (simp add: o_def add.assoc del: upt_Suc)
qed

lemma attempted_urls_failed_attempts:
  "attempted_urls (failed_attempts urls c k @ ev)
     = map (\<lambda>i. endpoint urls (c + int i)) [0..<k] @ attempted_urls ev"
proof (induction k arbitrary: c)
  case 0
  show ?case by simp
next
  case (Suc k)
  have "[0..<Suc k] = 0 # map Suc [0..<k]"
    by (simp add: upt_conv_Cons map_Suc_upt del: upt_Suc)
  then show ?case using Suc.IH [of "c + 1"]
    by (simp add: o_def add.assoc del: upt_Suc)
qed

lemma endpoints_rotate:
  assumes "urls \<noteq> []"
  shows "map (\<lambda>i. endpoint urls (c + int i)) [0..<length urls]
           = rotate (nat ((c - 1) mod int (length urls))) urls"
proof (rule nth_equalityI)
  show "length (map (\<lambda>i. endpoint urls (c + int i)) [0..<length urls])
          = length (rotate (nat ((c - 1) mod int (length urls))) urls)"
    by simp
next
  fix i
  assume "i < length (map (\<lambda>i. endpoint urls (c + int i)) [0..<length urls])"
  then have i: "i < length urls" by simp
  let ?n = "int (length urls)"
  have n: "0 < ?n" using assms by simp
  have "c + int i - 1 = (c - 1) + int i" by simp
  then have "(c + int i - 1) mod ?n = ((c - 1) mod ?n + int i) mod ?n"
    by (simp only: mod_add_left_eq)
  also have "\<dots> = int ((nat ((c - 1) mod ?n) + i) mod length urls)"
    using n by (simp add: zmod_int)
  finally have "nat ((c + int i - 1) mod ?n) = (nat ((c - 1) mod ?n) + i) mod length urls"
    by simp
  then show "map (\<lambda>i. endpoint urls (c + int i)) [0..<length urls] ! i
               = rotate (nat ((c - 1) mod int (length urls))) urls ! i"
    using i by (simp add: endpoint_def nth_rotate)
qed

lemma endpoint_periodic:
  "endpoint urls (c + int (length urls)) = endpoint urls c"
proof -
  have "c + int (length urls) - 1 = (c - 1) + int (length urls)" by simp
  then show ?thesis by (simp only: endpoint_def mod_add_self2)
qed

text \<open>
  C6. On a non-empty list of \<open>N\<close> URLs and a counter that is not negative, the \<open>N\<close>
  attempts that \<open>connect\<close> makes when the first \<open>N - 1\<close> fail go to the URLs of the list
  rotated by \<open>(counter - 1) mod N\<close>: each position of the list once. The attempt after
  those, at the counter plus \<open>N\<close>, selects what the first one selected.
\<close>

theorem connect_cycles_through_endpoints:
  assumes "self_rabbit_urls self \<noteq> []" and "0 \<le> self_count self"
  shows "attempted_urls
           (fst (snd (connect (replicate (length (self_rabbit_urls self) - 1)
                                 (OpenRaises AMQPConnectionError)) self)))
           = rotate (nat ((self_count self - 1) mod int (length (self_rabbit_urls self))))
               (self_rabbit_urls self)
       \<and> mset (attempted_urls
                 (fst (snd (connect (replicate (length (self_rabbit_urls self) - 1)
                                       (OpenRaises AMQPConnectionError)) self))))
           = mset (self_rabbit_urls self)
       \<and> select_url (self\<lparr>self_count := self_count self + int (length (self_rabbit_urls self))\<rparr>)
             (int (length (self_rabbit_urls self)))
           = select_url self (int (length (self_rabbit_urls self)))"
proof -
  let ?urls = "self_rabbit_urls self"
  let ?c = "self_count self"
  let ?k = "length ?urls - 1"
  have len: "Suc ?k = length ?urls" using assms(1) by (cases ?urls) simp_all
  have run: "connect (replicate ?k (OpenRaises AMQPConnectionError)) self
          = (self\<lparr>self_url := Some (endpoint ?urls (?c + int ?k)), self_count := ?c + int ?k\<rparr>,
             failed_attempts ?urls ?c ?k @ [Connecting (endpoint ?urls (?c + int ?k)) (?c + int ?k)],
             Pending)"
    unfolding connect_def using assms refl by (rule connect_loop_failures_pending)
  have "attempted_urls (fst (snd (connect (replicate ?k (OpenRaises AMQPConnectionError)) self)))
          = map (\<lambda>i. endpoint ?urls (?c + int i)) [0..<?k] @ [endpoint ?urls (?c + int ?k)]"
    unfolding run by (simp add: attempted_urls_failed_attempts)
  also have "\<dots> = map (\<lambda>i. endpoint ?urls (?c + int i)) [0..<Suc ?k]"
    by simp
  also have "\<dots> = rotate (nat ((?c - 1) mod int (length ?urls))) ?urls"
    unfolding len using assms(1) by (rule endpoints_rotate)
  finally have a: "attempted_urls
      (fst (snd (connect (replicate ?k (OpenRaises AMQPConnectionError)) self)))
        = rotate (nat ((?c - 1) mod int (length ?urls))) ?urls" .
  have p: "select_url (self\<lparr>self_count := ?c + int (length ?urls)\<rparr>) (int (length ?urls))
             = select_url self (int (length ?urls))"
    using select_url_endpoint [of "self\<lparr>self_count := ?c + int (length ?urls)\<rparr>"]
      select_url_endpoint [of self] assms(1)
    by (simp add: endpoint_periodic)
  have "mset (drop j ?urls @ take j ?urls) = mset ?urls" for j
  proof -
    have "mset (drop j ?urls @ take j ?urls) = mset (take j ?urls) + mset (drop j ?urls)"
      by (simp add: union_commute)
    also have "\<dots> = mset (take j ?urls @ drop j ?urls)"
      by (simp only: mset_append)
    finally show ?thesis by simp
  qed
  then have m: "mset (rotate (nat ((?c - 1) mod int (length ?urls))) ?urls) = mset ?urls"
    by (simp only: rotate_drop_take)
  show ?thesis using a p m by simp
qed

theorem connect_cycles_through_endpoints_witness:
  "self_rabbit_urls (AsyncConsumer_init True ''message'' ''topic'' ''survey'' example_urls) \<noteq> []
   \<and> 0 \<le> self_count (AsyncConsumer_init True ''message'' ''topic'' ''survey'' example_urls)
   \<and> attempted_urls
        (fst (snd (connect [OpenRaises AMQPConnectionError]
                     (AsyncConsumer_init True ''message'' ''topic'' ''survey'' example_urls))))
       = [''amqp://rabbit-a'', ''amqp://rabbit-b'']"
proof -
  have h1: "self_rabbit_urls (AsyncConsumer_init True ''message'' ''topic'' ''survey'' example_urls)
              \<noteq> []"
    by (simp add: AsyncConsumer_init_def example_urls_def)
  have h2: "0 \<le> self_count (AsyncConsumer_init True ''message'' ''topic'' ''survey'' example_urls)"
    by (simp add: AsyncConsumer_init_def)
  from connect_cycles_through_endpoints [OF h1 h2] show ?thesis
    using h1 h2 by (simp add: AsyncConsumer_init_def example_urls_def)
qed

text \<open>
  C7, as stated, fails for a counter that has just been reset. After \<open>run\<close> and
  \<open>on_connection_open\<close> the counter is 1; when the connection closes, \<open>connect\<close> is reached
  through \<open>reconnect\<close>, which sleeps and increments first. With two failed attempts the
  sleeps are 1, 2, 3: the sleep before the third attempt is 3, not 2.
\<close>

theorem reconnect_after_reset_counterexample:
  "self_count
     (fst (on_connection_open
             (fst (run [Opened 5]
                     (AsyncConsumer_init True ''message'' ''topic'' ''survey'' example_urls)))))
     = 1
   \<and> fst (snd (on_connection_closed
                  [OpenRaises AMQPConnectionError, OpenRaises AMQPConnectionError, Opened 6]
                  (fst (on_connection_open
                          (fst (run [Opened 5]
                                  (AsyncConsumer_init True ''message'' ''topic'' ''survey''
                                     example_urls)))))))
     = [Sleep 1, Connecting ''amqp://rabbit-b'' 2, Sleep 2, Connecting ''amqp://rabbit-a'' 3,
        Sleep 3, Connecting ''amqp://rabbit-b'' 4]"
  by (simp add: AsyncConsumer_init_def example_urls_def run_def connect_def select_url_def
        server_choice_def py_index_def on_connection_open_def open_channel_def
        on_connection_closed_def reconnect_def delay_before_reconnect_def)

text \<open>
  C7, amended. A failed attempt made at counter value \<open>n\<close> is followed by a sleep of \<open>n\<close>
  seconds, the next attempt runs at \<open>n + 1\<close>, and no attempt is skipped. When \<open>connect\<close> is
  entered with the counter at 1 (a new consumer) and the first \<open>K\<close> attempts fail, the
  events are attempt \<open>k\<close>, sleep \<open>k\<close> for \<open>k = 1, ..., K\<close>, then attempt \<open>K + 1\<close>: the sleep
  before attempt \<open>K + 1\<close> is \<open>K\<close>. When the counter is 1 and \<open>reconnect\<close> runs (a reset
  counter, after the connection closed), it sleeps 1 second first and its attempts run at
  the counter values 2, 3, ...: the sleeps are \<open>1, ..., K + 1\<close>, and the sleep before its
  attempt number \<open>K + 1\<close> is \<open>K + 1\<close>.
\<close>

theorem backoff_follows_counter:
  assumes "self_rabbit_urls self \<noteq> []" and "self_count self = 1"
  shows "connect (replicate K (OpenRaises AMQPConnectionError)) self
           = (self\<lparr>self_url := Some (endpoint (self_rabbit_urls self) (int K + 1)),
                    self_count := int K + 1\<rparr>,
              concat (map (\<lambda>k. [Connecting (endpoint (self_rabbit_urls self) (int k)) (int k),
                                 Sleep (int k)]) [1..<Suc K])
                @ [Connecting (endpoint (self_rabbit_urls self) (int K + 1)) (int K + 1)],
              Pending)
       \<and> connect (replicate K (OpenRaises AMQPConnectionError) @ [Opened h]) self
           = (self\<lparr>self_url := Some (endpoint (self_rabbit_urls self) (int K + 1)),
                    self_count := int K + 1\<rparr>,
              concat (map (\<lambda>k. [Connecting (endpoint (self_rabbit_urls self) (int k)) (int k),
                                 Sleep (int k)]) [1..<Suc K])
                @ [Connecting (endpoint (self_rabbit_urls self) (int K + 1)) (int K + 1)],
              Returned h)
       \<and> sleeps (fst (snd (connect (replicate K (OpenRaises AMQPConnectionError)) self)))
           = map int [1..<Suc K]
       \<and> (\<not> self_closing self \<longrightarrow>
            reconnect (replicate K (OpenRaises AMQPConnectionError) @ [Opened h]) self
              = (self\<lparr>self_url := Some (endpoint (self_rabbit_urls self) (int K + 2)),
                       self_count := int K + 2,
                       self_connection := Some h\<rparr>,
                 [Sleep 1]
                   @ concat (map (\<lambda>k. [Connecting (endpoint (self_rabbit_urls self) (int k)) (int k),
                                        Sleep (int k)]) [2..<K + 2])
                   @ [Connecting (endpoint (self_rabbit_urls self) (int K + 2)) (int K + 2)],
                 Returned ())
            \<and> sleeps (fst (snd (reconnect
                                  (replicate K (OpenRaises AMQPConnectionError) @ [Opened h]) self)))
                = map int [1..<K + 2])"
proof -
  let ?urls = "self_rabbit_urls self"
  have c: "0 \<le> self_count self" using assms(2) by simp
  have u1: "[1..<Suc K] = map Suc [0..<K]"
    by (simp add: map_Suc_upt del: upt_Suc)
  have u2: "[2..<K + 2] = map (\<lambda>i. i + 2) [0..<K]"
    using map_add_upt [of 2 K] by (simp add: add.commute)
  have t: "concat (map (\<lambda>k. [Connecting (endpoint ?urls (int k)) (int k), Sleep (int k)])
                          [1..<Suc K])
                = failed_attempts ?urls 1 K"
    using u1 by (simp add: failed_attempts_concat o_def add.commute del: upt_Suc)
  have t2: "concat (map (\<lambda>k. [Connecting (endpoint ?urls (int k)) (int k), Sleep (int k)])
                          [2..<K + 2])
                = failed_attempts ?urls 2 K"
    unfolding u2 by (simp add: failed_attempts_concat o_def add.commute)
  have s: "map int [1..<Suc K] = map (\<lambda>i. 1 + int i) [0..<K]"
    using u1 by (simp add: o_def del: upt_Suc)
  have s2: "map int [1..<K + 2] = 1 # map (\<lambda>i. 2 + int i) [0..<K]"
  proof -
    have "[1..<K + 2] = 1 # [2..<K + 2]"
      by (simp add: upt_conv_Cons numeral_2_eq_2)
    then show ?thesis unfolding u2 by (simp add: o_def add.commute)
  qed
  have p: "connect (replicate K (OpenRaises AMQPConnectionError)) self
        = (self\<lparr>self_url := Some (endpoint ?urls (self_count self + int K)),
                 self_count := self_count self + int K\<rparr>,
           failed_attempts ?urls (self_count self) K
             @ [Connecting (endpoint ?urls (self_count self + int K)) (self_count self + int K)],
           Pending)"
    unfolding connect_def using assms(1) c refl by (rule connect_loop_failures_pending)
  have r: "connect (replicate K (OpenRaises AMQPConnectionError) @ [Opened h]) self
        = (self\<lparr>self_url := Some (endpoint ?urls (self_count self + int K)),
                 self_count := self_count self + int K\<rparr>,
           failed_attempts ?urls (self_count self) K
             @ [Connecting (endpoint ?urls (self_count self + int K)) (self_count self + int K)],
           Returned h)"
    unfolding connect_def using assms(1) c refl by (rule connect_loop_failures_then_open)
  have q: "sleeps (fst (snd (connect (replicate K (OpenRaises AMQPConnectionError)) self)))
             = map int [1..<Suc K]"
    unfolding s by (simp add: p sleeps_failed_attempts assms(2))
  have a: "connect (replicate K (OpenRaises AMQPConnectionError)) self
           = (self\<lparr>self_url := Some (endpoint ?urls (int K + 1)), self_count := int K + 1\<rparr>,
              failed_attempts ?urls 1 K
                @ [Connecting (endpoint ?urls (int K + 1)) (int K + 1)],
              Pending)"
    using p by (simp add: assms(2) add.commute)
  have b: "connect (replicate K (OpenRaises AMQPConnectionError) @ [Opened h]) self
           = (self\<lparr>self_url := Some (endpoint ?urls (int K + 1)), self_count := int K + 1\<rparr>,
              failed_attempts ?urls 1 K
                @ [Connecting (endpoint ?urls (int K + 1)) (int K + 1)],
              Returned h)"
    using r by (simp add: assms(2) add.commute)
  have d: "reconnect (replicate K (OpenRaises AMQPConnectionError) @ [Opened h]) self
              = (self\<lparr>self_url := Some (endpoint ?urls (int K + 2)),
                       self_count := int K + 2,
                       self_connection := Some h\<rparr>,
                 [Sleep 1] @ failed_attempts ?urls 2 K
                   @ [Connecting (endpoint ?urls (int K + 2)) (int K + 2)],
                 Returned ())"
    if "\<not> self_closing self"
    using reconnect_failures_then_open [OF assms(1) c that, of K h]
    by (simp add: assms(2) add.commute)
  have e: "sleeps (fst (snd (reconnect
                      (replicate K (OpenRaises AMQPConnectionError) @ [Opened h]) self)))
             = map int [1..<K + 2]"
    if "\<not> self_closing self"
    unfolding s2 using d [OF that] by (simp add: sleeps_failed_attempts)
  show ?thesis
    unfolding t t2 using a b q d e by blast
qed


theorem backoff_follows_counter_witness:
  "self_rabbit_urls (AsyncConsumer_init True ''message'' ''topic'' ''survey'' example_urls) \<noteq> []
   \<and> self_count (AsyncConsumer_init True ''message'' ''topic'' ''survey'' example_urls) = 1
   \<and> \<not> self_closing (AsyncConsumer_init True ''message'' ''topic'' ''survey'' example_urls)
   \<and> fst (snd (connect (replicate 3 (OpenRaises AMQPConnectionError) @ [Opened 5])
                  (AsyncConsumer_init True ''message'' ''topic'' ''survey'' example_urls)))
       = [Connecting ''amqp://rabbit-a'' 1, Sleep 1, Connecting ''amqp://rabbit-b'' 2, Sleep 2,
          Connecting ''amqp://rabbit-a'' 3, Sleep 3, Connecting ''amqp://rabbit-b'' 4]
   \<and> sleeps (fst (snd (reconnect (replicate 3 (OpenRaises AMQPConnectionError) @ [Opened 5])
                  (AsyncConsumer_init True ''message'' ''topic'' ''survey'' example_urls))))
       = [1, 2, 3, 4]"
proof -
  let ?c = "AsyncConsumer_init True ''message'' ''topic'' ''survey'' example_urls"
  have h1: "self_rabbit_urls ?c \<noteq> []"
    by (simp add: AsyncConsumer_init_def example_urls_def)
  have h2: "self_count ?c = 1"
    by (simp add: AsyncConsumer_init_def)
  have h3: "\<not> self_closing ?c"
    by (simp add: AsyncConsumer_init_def)
  note t = backoff_follows_counter [OF h1 h2, of 3 5]
  have u: "[Suc 0..<4] = [Suc 0, 2, 3]" by code_simp
  have v: "map int [1..<3 + 2] = [1, 2, 3, 4]" by code_simp
  have "fst (snd (connect (replicate 3 (OpenRaises AMQPConnectionError) @ [Opened 5]) ?c))
        = fst (snd (?c\<lparr>self_url := Some (endpoint (self_rabbit_urls ?c) (int 3 + 1)),
                        self_count := int 3 + 1\<rparr>,
              concat (map (\<lambda>k. [Connecting (endpoint (self_rabbit_urls ?c) (int k)) (int k),
                                 Sleep (int k)]) [1..<Suc 3])
                @ [Connecting (endpoint (self_rabbit_urls ?c) (int 3 + 1)) (int 3 + 1)],
              Returned (5::nat)))"
    using t [THEN conjunct2, THEN conjunct1] by (simp only: fst_conv snd_conv)
  also have "\<dots> = [Connecting ''amqp://rabbit-a'' 1, Sleep 1, Connecting ''amqp://rabbit-b'' 2,
          Sleep 2, Connecting ''amqp://rabbit-a'' 3, Sleep 3, Connecting ''amqp://rabbit-b'' 4]"
    by (simp add: u endpoint_def AsyncConsumer_init_def example_urls_def)
  finally have a: "fst (snd (connect (replicate 3 (OpenRaises AMQPConnectionError) @ [Opened 5]) ?c))
       = [Connecting ''amqp://rabbit-a'' 1, Sleep 1, Connecting ''amqp://rabbit-b'' 2, Sleep 2,
          Connecting ''amqp://rabbit-a'' 3, Sleep 3, Connecting ''amqp://rabbit-b'' 4]" .
  have "sleeps (fst (snd (reconnect (replicate 3 (OpenRaises AMQPConnectionError) @ [Opened 5]) ?c)))
          = map int [1..<3 + 2]"
    using t [THEN conjunct2, THEN conjunct2, THEN conjunct2, rule_format, OF h3, THEN conjunct2] .
  then have b: "sleeps (fst (snd (reconnect
                   (replicate 3 (OpenRaises AMQPConnectionError) @ [Opened 5]) ?c)))
          = [1, 2, 3, 4]"
    by (simp only: v)
  show ?thesis using h1 h2 h3 a b by simp
qed

section \<open>Resetting the counter\<close>

text \<open>
  C8. \<open>on_connection_open\<close> leaves the counter at 1 whatever it was, and changes nothing
  else of the consumer. The reset comes before \<open>open_channel\<close>: it is in place also when
  \<open>open_channel\<close> raises. In particular, when \<open>connect\<close> has returned a connection after
  \<open>K\<close> failed attempts, the counter is \<open>K + 1\<close>, and 1 after \<open>on_connection_open\<close>.
\<close>

theorem on_connection_open_resets_count:
  "self_count (fst (on_connection_open self)) = 1
   \<and> on_connection_open self
       = (self\<lparr>self_count := 1\<rparr>,
          case self_connection self of
            None \<Rightarrow> ([], Raised AttributeError)
          | Some c \<Rightarrow> ([ChannelOpen c], Returned ()))
   \<and> (self_rabbit_urls self \<noteq> [] \<and> self_count self = 1 \<longrightarrow>
        self_count (fst (connect (replicate K (OpenRaises AMQPConnectionError) @ [Opened h]) self))
          = int K + 1
        \<and> self_count
            (fst (on_connection_open
                    (fst (connect (replicate K (OpenRaises AMQPConnectionError) @ [Opened h])
                            self))))
          = 1)"
proof -
  have open_ok: "on_connection_open s
       = (s\<lparr>self_count := 1\<rparr>,
          case self_connection s of
            None \<Rightarrow> ([], Raised AttributeError)
          | Some c \<Rightarrow> ([ChannelOpen c], Returned ()))" for s :: "'a async_consumer_scheme"
    by (simp add: on_connection_open_def open_channel_def split: option.splits)
  have "self_count (fst (connect (replicate K (OpenRaises AMQPConnectionError) @ [Opened h]) self))
          = int K + 1"
    if "self_rabbit_urls self \<noteq> []" and "self_count self = 1"
  proof -
    have "0 \<le> self_count self" using that(2) by simp
    with that(1)
    have "connect_loop (replicate K (OpenRaises AMQPConnectionError) @ [Opened h])
            (int (length (self_rabbit_urls self))) self
          = (self\<lparr>self_url := Some (endpoint (self_rabbit_urls self) (self_count self + int K)),
                   self_count := self_count self + int K\<rparr>,
             failed_attempts (self_rabbit_urls self) (self_count self) K
               @ [Connecting (endpoint (self_rabbit_urls self) (self_count self + int K))
                    (self_count self + int K)],
             Returned h)"
      using refl by (rule connect_loop_failures_then_open)
    then show ?thesis by (simp add: connect_def that(2))
  qed
  then show ?thesis by (simp add: open_ok)
qed

theorem on_connection_open_resets_count_witness:
  "self_rabbit_urls (AsyncConsumer_init True ''message'' ''topic'' ''survey'' example_urls) \<noteq> []
   \<and> self_count (AsyncConsumer_init True ''message'' ''topic'' ''survey'' example_urls) = 1
   \<and> self_count
        (fst (connect (replicate 3 (OpenRaises AMQPConnectionError) @ [Opened 5])
                (AsyncConsumer_init True ''message'' ''topic'' ''survey'' example_urls)))
       = 4
   \<and> self_count
        (fst (on_connection_open
                (fst (connect (replicate 3 (OpenRaises AMQPConnectionError) @ [Opened 5])
                        (AsyncConsumer_init True ''message'' ''topic'' ''survey'' example_urls)))))
       = 1"
proof -
  have h1: "self_rabbit_urls (AsyncConsumer_init True ''message'' ''topic'' ''survey'' example_urls)
              \<noteq> []"
    by (simp add: AsyncConsumer_init_def example_urls_def)
  have h2: "self_count (AsyncConsumer_init True ''message'' ''topic'' ''survey'' example_urls) = 1"
    by (simp add: AsyncConsumer_init_def)
  from on_connection_open_resets_count
         [of "AsyncConsumer_init True ''message'' ''topic'' ''survey'' example_urls" 3 5]
  show ?thesis using h1 h2 by simp
qed

end
